theory Spec2Isabelle
  imports Main "HOL-Library.AList" "HOL-Library.Word"
begin

section \<open>Python values shared by the modules\<close>

text \<open>
  An exception is its class name together with the text \<open>str(e)\<close> yields; the
  second form also lists the further classes its class derives from, for the
  \<open>except\<close> clauses that match a class with its subclasses. Every exception of the
  model is an instance of \<open>Exception\<close>; cancellation and interpreter exits
  (\<open>BaseException\<close>) are outside the model.
\<close>

datatype py_exc =
    PyExc (exc_class: string) (exc_str: string)
  | PyExcDerived (exc_class: string) (exc_bases: "string list") (exc_str: string)
where
  "exc_bases (PyExc cls s) = []"

text \<open>\<open>isinstance(e, cls)\<close>, which is what \<open>except cls\<close> tests.\<close>

definition isinstance :: "py_exc \<Rightarrow> string \<Rightarrow> bool" where
  "isinstance e cls = (exc_class e = cls \<or> cls \<in> set (exc_bases e))"

text \<open>\<open>str(n)\<close> for an integer: its decimal digits, with a sign when negative.\<close>

fun str_nat :: "nat \<Rightarrow> string" where
  "str_nat n =
     (if n < 10 then [''0123456789'' ! n]
      else str_nat (n div 10) @ [''0123456789'' ! (n mod 10)])"

declare str_nat.simps [simp del]

definition str_int :: "int \<Rightarrow> string" where
  "str_int i = (if i < 0 then ''-'' @ str_nat (nat (- i)) else str_nat (nat i))"

type_synonym bytes = "8 word list"

text \<open>
  A \<open>datetime\<close> is the number of microseconds since a fixed origin, the resolution of
  Python's \<open>datetime\<close>; the difference of two of them is a \<open>timedelta\<close>, again in
  microseconds. \<open>datetime.now()\<close> reads the wall clock, so every reading is an input.
\<close>

type_synonym datetime = int

type_synonym timedelta = int

text \<open>
  \<open>timedelta(minutes=m)\<close>: the constructor normalises to days, seconds and microseconds
  and raises \<open>OverflowError\<close> when the number of days leaves the range
  \<open>-999999999 .. 999999999\<close>; the text is that of the C implementation, which
  first converts the number of days to a C \<open>int\<close>.
\<close>

definition timedelta_minutes :: "int \<Rightarrow> py_exc + timedelta" where
  "timedelta_minutes m =
     (if m div 1440 < - 999999999 \<or> 999999999 < m div 1440
      then Inl (PyExc ''OverflowError''
             (if m div 1440 < - 2147483648 \<or> 2147483647 < m div 1440
              then ''Python int too large to convert to C int''
              else ''days='' @ str_int (m div 1440) @ ''; must have magnitude <= 999999999''))
      else Inr (m * 60000000))"

section \<open>Session registry (src/utils/session.py)\<close>

record session_data =
  created_at :: datetime
  last_activity :: datetime
  is_active :: bool

text \<open>
  \<open>SessionManager.sessions\<close> is a dict from session identifier to the session's dict.
  It is kept as an association list in insertion order, because
  \<open>cleanup_inactive_sessions\<close> and \<open>get_active_sessions_count\<close> iterate over it. A
  Python dict holds each key once: \<open>distinct (map fst d)\<close>.
\<close>

type_synonym SessionManager = "(string \<times> session_data) list"

definition SessionManager_init :: SessionManager where
  "SessionManager_init = []"

text \<open>
  \<open>create_session\<close>: the identifier is \<open>str(uuid.uuid4())\<close>, a random value supplied
  by the environment, and the two timestamps are two readings of the clock.
\<close>

definition create_session ::
    "SessionManager \<Rightarrow> string \<Rightarrow> datetime \<Rightarrow> datetime \<Rightarrow> string \<times> SessionManager" where
  "create_session sm session_id now1 now2 =
     (session_id,
      AList.update session_id
        \<lparr>created_at = now1, last_activity = now2, is_active = True\<rparr> sm)"

definition update_session :: "SessionManager \<Rightarrow> string \<Rightarrow> datetime \<Rightarrow> SessionManager" where
  "update_session sm session_id now =
     (case map_of sm session_id of
        None \<Rightarrow> sm
      | Some sd \<Rightarrow> AList.update session_id (sd\<lparr>last_activity := now\<rparr>) sm)"

definition end_session :: "SessionManager \<Rightarrow> string \<Rightarrow> SessionManager" where
  "end_session sm session_id =
     (case map_of sm session_id of
        None \<Rightarrow> sm
      | Some sd \<Rightarrow> AList.update session_id (sd\<lparr>is_active := False\<rparr>) sm)"

text \<open>
  The first loop of \<open>cleanup_inactive_sessions\<close>: it walks the items and collects the
  identifiers to remove. The \<open>timedelta\<close> is built inside the loop, for inactive
  sessions only, so its \<open>OverflowError\<close> needs an inactive session to show.
\<close>

fun sessions_to_remove ::
    "datetime \<Rightarrow> int \<Rightarrow> (string \<times> session_data) list \<Rightarrow> py_exc + string list" where
  "sessions_to_remove current_time max_age_minutes [] = Inr []"
| "sessions_to_remove current_time max_age_minutes ((session_id, sd) # items) =
     (if \<not> is_active sd then
        (case timedelta_minutes max_age_minutes of
           Inl e \<Rightarrow> Inl e
         | Inr limit \<Rightarrow>
             (case sessions_to_remove current_time max_age_minutes items of
                Inl e \<Rightarrow> Inl e
              | Inr rest \<Rightarrow>
                  if current_time - last_activity sd > limit
                  then Inr (session_id # rest) else Inr rest))
      else sessions_to_remove current_time max_age_minutes items)"

text \<open>
  The second loop: \<open>del self.sessions[session_id]\<close> for each collected identifier;
  \<open>del\<close> raises \<open>KeyError\<close> on a key that is not there.
\<close>

fun delete_sessions :: "string list \<Rightarrow> SessionManager \<Rightarrow> py_exc + SessionManager" where
  "delete_sessions [] sm = Inr sm"
| "delete_sessions (session_id # ids) sm =
     (if session_id \<in> fst ` set sm
      then delete_sessions ids (AList.delete session_id sm)
      else Inl (PyExc ''KeyError'' session_id))"

definition cleanup_inactive_sessions ::
    "SessionManager \<Rightarrow> datetime \<Rightarrow> int \<Rightarrow> py_exc + SessionManager" where
  "cleanup_inactive_sessions sm current_time max_age_minutes =
     (case sessions_to_remove current_time max_age_minutes sm of
        Inl e \<Rightarrow> Inl e
      | Inr ids \<Rightarrow> delete_sessions ids sm)"

definition get_active_sessions_count :: "SessionManager \<Rightarrow> int" where
  "get_active_sessions_count sm = int (length (filter (\<lambda>(session_id, sd). is_active sd) sm))"

text \<open>
  What the sweep compares: the time since the session's last activity against
  \<open>max_age_minutes\<close>, for a session that is not active.
\<close>

definition swept :: "datetime \<Rightarrow> int \<Rightarrow> session_data \<Rightarrow> bool" where
  "swept current_time max_age_minutes sd =
     (\<not> is_active sd \<and> current_time - last_activity sd > max_age_minutes * 60000000)"

definition timedelta_ok :: "int \<Rightarrow> bool" where
  "timedelta_ok m = (- 999999999 \<le> m div 1440 \<and> m div 1440 \<le> 999999999)"

section \<open>Language model (src/llm.py)\<close>

datatype message = Message (role: string) (content: string)

text \<open>
  \<open>conversation_history\<close> is a dict from session identifier to a list of messages; the
  code only looks keys up, stores and deletes, so a map suffices.
\<close>

record LanguageModel =
  llm_provider :: string
  llm_is_initialized :: bool
  conversation_history :: "string \<rightharpoonup> message list"

definition LanguageModel_init :: "string \<Rightarrow> LanguageModel" where
  "LanguageModel_init default_provider =
     \<lparr>llm_provider = default_provider, llm_is_initialized = False,
      conversation_history = Map.empty\<rparr>"

definition LanguageModel_initialize :: "LanguageModel \<Rightarrow> LanguageModel" where
  "LanguageModel_initialize lm = lm\<lparr>llm_is_initialized := True\<rparr>"

definition system_message :: message where
  "system_message = Message ''system''
     ''You are a helpful AI assistant engaged in a voice conversation. Keep your responses concise and natural.''"

text \<open>\<open>self.conversation_history.get(session_id, [])\<close>.\<close>

definition history_get :: "LanguageModel \<Rightarrow> string \<Rightarrow> message list" where
  "history_get lm session_id =
     (case conversation_history lm session_id of None \<Rightarrow> [] | Some history \<Rightarrow> history)"

text \<open>
  \<open>_generate_openai_response\<close>. The parameter \<open>acreate\<close> is what lines 52 to 64 do with
  the prepared messages: the lookup of the model configuration, the awaited call
  \<open>openai.ChatCompletion.acreate\<close> and the extraction of
  \<open>response.choices[0].message.content\<close>; each of them can raise, and none of them
  touches the history. The history is extended in place and stored only after they
  returned, and nothing between the extension and the store can raise. The
  \<open>except\<close> clause logs and re-raises the same exception.
\<close>

definition generate_openai_response ::
    "(message list \<Rightarrow> py_exc + string) \<Rightarrow> LanguageModel \<Rightarrow> string \<Rightarrow> string \<Rightarrow>
     (py_exc + string) \<times> LanguageModel" where
  "generate_openai_response acreate lm user_input session_id =
     (let history = history_get lm session_id;
          messages = [system_message] @ history @ [Message ''user'' user_input]
      in case acreate messages of
           Inl e \<Rightarrow> (Inl e, lm)
         | Inr response_text \<Rightarrow>
             (let extended = history @
                    [Message ''user'' user_input, Message ''assistant'' response_text];
                  trimmed = (if length extended > 10
                             then drop (length extended - 10) extended else extended)
              in (Inr response_text,
                  lm\<lparr>conversation_history :=
                       (conversation_history lm)(session_id \<mapsto> trimmed)\<rparr>)))"

definition generate_response ::
    "(message list \<Rightarrow> py_exc + string) \<Rightarrow> LanguageModel \<Rightarrow> string \<Rightarrow> string \<Rightarrow>
     (py_exc + string) \<times> LanguageModel" where
  "generate_response acreate lm user_input session_id =
     (if \<not> llm_is_initialized lm
      then (Inl (PyExc ''RuntimeError'' ''Language model not initialized''), lm)
      else if llm_provider lm = ''openai''
      then generate_openai_response acreate lm user_input session_id
      else (Inl (PyExc ''ValueError'' (''Unsupported provider: '' @ llm_provider lm)), lm))"

definition clear_history :: "LanguageModel \<Rightarrow> string \<Rightarrow> LanguageModel" where
  "clear_history lm session_id =
     (if conversation_history lm session_id \<noteq> None
      then lm\<lparr>conversation_history := (conversation_history lm)(session_id := None)\<rparr>
      else lm)"

text \<open>Any sequence of calls on the language model object.\<close>

datatype lm_call =
    Initialize
  | GenerateResponse "message list \<Rightarrow> py_exc + string" string string
  | ClearHistory string

fun lm_step :: "LanguageModel \<Rightarrow> lm_call \<Rightarrow> LanguageModel" where
  "lm_step lm Initialize = LanguageModel_initialize lm"
| "lm_step lm (GenerateResponse acreate user_input session_id) =
     snd (generate_response acreate lm user_input session_id)"
| "lm_step lm (ClearHistory session_id) = clear_history lm session_id"

definition lm_run :: "LanguageModel \<Rightarrow> lm_call list \<Rightarrow> LanguageModel" where
  "lm_run lm calls = foldl lm_step lm calls"

section \<open>Voice synthesizer (src/voice.py)\<close>

record VoiceSynthesizer =
  voice_provider :: string
  voice_is_initialized :: bool

definition VoiceSynthesizer_init :: "string \<Rightarrow> VoiceSynthesizer" where
  "VoiceSynthesizer_init default_provider =
     \<lparr>voice_provider = default_provider, voice_is_initialized = False\<rparr>"

definition VoiceSynthesizer_initialize :: "VoiceSynthesizer \<Rightarrow> VoiceSynthesizer" where
  "VoiceSynthesizer_initialize vs = vs\<lparr>voice_is_initialized := True\<rparr>"

text \<open>
  \<open>synthesize\<close>; \<open>generate\<close> is \<open>_synthesize_elevenlabs\<close>, the configuration lookup and
  the call \<open>elevenlabs.generate\<close>.
\<close>

definition synthesize ::
    "(string \<Rightarrow> py_exc + bytes) \<Rightarrow> VoiceSynthesizer \<Rightarrow> string \<Rightarrow> py_exc + bytes" where
  "synthesize generate vs reply =
     (if \<not> voice_is_initialized vs
      then Inl (PyExc ''RuntimeError'' ''Voice synthesizer not initialized'')
      else if voice_provider vs = ''elevenlabs''
      then generate reply
      else Inl (PyExc ''ValueError'' (''Unsupported provider: '' @ voice_provider vs)))"

section \<open>Audio processor (src/audio.py)\<close>

text \<open>
  A \<open>float32\<close> array is kept as the list of its elements, each element the four bytes
  it occupies in the buffer: \<open>np.frombuffer\<close> makes a view of the buffer and converts
  nothing. Over an immutable \<open>bytes\<close> object the view is read-only
  (\<open>flags.writeable\<close> is false), and a reshaped view inherits the flag.
\<close>

type_synonym float32 = bytes

record ndarray =
  samples :: "float32 list"
  shape :: "nat list"
  writeable :: bool

record AudioProcessor =
  sample_rate :: int
  channels :: int
  chunk_size :: int
  buffer_size :: int

fun items4 :: "bytes \<Rightarrow> float32 list" where
  "items4 (a # b # c # d # rest) = [a, b, c, d] # items4 rest"
| "items4 rest = []"

text \<open>The two errors numpy raises on a buffer of the wrong length.\<close>

definition buffer_size_error :: py_exc where
  "buffer_size_error = PyExc ''ValueError'' ''buffer size must be a multiple of element size''"

definition reshape_error :: "nat \<Rightarrow> py_exc" where
  "reshape_error n =
     PyExc ''ValueError'' (''cannot reshape array of size '' @ str_nat n @ '' into shape (2)'')"

definition frombuffer :: "bytes \<Rightarrow> py_exc + ndarray" where
  "frombuffer audio_data =
     (if length audio_data mod 4 \<noteq> 0
      then Inl buffer_size_error
      else Inr \<lparr>samples = items4 audio_data, shape = [length audio_data div 4],
                writeable = False\<rparr>)"

text \<open>\<open>audio_array.reshape(-1, 2)\<close>.\<close>

definition reshape_pairs :: "ndarray \<Rightarrow> py_exc + ndarray" where
  "reshape_pairs a =
     (if length (samples a) mod 2 \<noteq> 0
      then Inl (reshape_error (length (samples a)))
      else Inr (a\<lparr>shape := [length (samples a) div 2, 2]\<rparr>))"

definition float32_zero :: float32 where
  "float32_zero = [0, 0, 0, 0]"

text \<open>
  \<open>_reduce_noise\<close> assigns through a boolean mask in place, which numpy refuses on a
  read-only array before it looks at the mask. The comparison
  \<open>np.abs(x) < 0.01\<close> is floating-point arithmetic and is the parameter \<open>below\<close>.
\<close>

definition reduce_noise :: "(float32 \<Rightarrow> bool) \<Rightarrow> ndarray \<Rightarrow> py_exc + ndarray" where
  "reduce_noise below a =
     (if \<not> writeable a
      then Inl (PyExc ''ValueError'' ''assignment destination is read-only'')
      else Inr (a\<lparr>samples := map (\<lambda>x. if below x then float32_zero else x) (samples a)\<rparr>))"

text \<open>
  \<open>_apply_agc\<close>: mean of squares, square root, division, scaling and clipping are
  floating-point arithmetic on the elements, the parameter \<open>agc\<close>; the result is a
  new array of the same shape.
\<close>

definition apply_agc :: "(float32 list \<Rightarrow> float32 list) \<Rightarrow> ndarray \<Rightarrow> ndarray" where
  "apply_agc agc a = a\<lparr>samples := agc (samples a), writeable := True\<rparr>"

text \<open>\<open>process\<close>; its \<open>except\<close> clause logs and re-raises the same exception.\<close>

definition process ::
    "(float32 \<Rightarrow> bool) \<Rightarrow> (float32 list \<Rightarrow> float32 list) \<Rightarrow> AudioProcessor \<Rightarrow> bytes \<Rightarrow>
     py_exc + ndarray" where
  "process below agc ap audio_data =
     (case frombuffer audio_data of
        Inl e \<Rightarrow> Inl e
      | Inr audio_array \<Rightarrow>
          (case (if channels ap = 2 then reshape_pairs audio_array else Inr audio_array) of
             Inl e \<Rightarrow> Inl e
           | Inr shaped \<Rightarrow>
               (case reduce_noise below shaped of
                  Inl e \<Rightarrow> Inl e
                | Inr gated \<Rightarrow> Inr (apply_agc agc gated))))"

text \<open>The length condition under which \<open>process\<close> gets past the two shape checks.\<close>

definition well_shaped :: "AudioProcessor \<Rightarrow> bytes \<Rightarrow> bool" where
  "well_shaped ap audio_data =
     (length audio_data mod 4 = 0 \<and>
      (if channels ap = 2 then length audio_data mod 8 = 0 else True))"

section \<open>Conversation endpoint (app.py, websocket_endpoint)\<close>

text \<open>
  The result of \<open>speech_recognizer.transcribe\<close>, an object with the attributes the
  endpoint reads. The speech recognizer (src/speech.py) is an external service whose
  behaviour is an input of the model.
\<close>

datatype transcript = Transcript (transcript_text: string) (is_final: bool)

text \<open>
  The calls the endpoint makes on its collaborators, in order. A call on the websocket
  carries its outcome: \<open>None\<close> when it returned, the exception when it raised.
\<close>

datatype event =
    CallProcess bytes
  | CallTranscribe
  | CallGenerateResponse string string
  | CallSynthesize string
  | SendBytes bytes "py_exc option"
  | SendJson "(string \<times> string) list" "py_exc option"
  | Close "nat option" "py_exc option"

record app_state =
  session_manager :: SessionManager
  language_model :: LanguageModel
  voice_synthesizer :: VoiceSynthesizer
  trace :: "event list"

definition emit :: "event \<Rightarrow> app_state \<Rightarrow> app_state" where
  "emit ev st = st\<lparr>trace := trace st @ [ev]\<rparr>"

text \<open>
  What the environment does during one iteration of the loop: when
  \<open>websocket.receive_bytes()\<close> completes, counted from the call (\<open>None\<close> when it
  never does), and with what (a frame, or an exception); the behaviour of the three
  external services; the outcome of \<open>websocket.send_bytes\<close>; and the reading of the
  clock in \<open>update_session\<close>.
\<close>

record 'a frame_env =
  receive_delay :: "timedelta option"
  receive_outcome :: "py_exc + bytes"
  transcribe :: "'a \<Rightarrow> py_exc + transcript"
  openai_acreate :: "message list \<Rightarrow> py_exc + string"
  elevenlabs_generate :: "string \<Rightarrow> py_exc + bytes"
  send_bytes :: "bytes \<Rightarrow> py_exc option"
  update_now :: datetime

text \<open>
  \<open>asyncio.wait_for(awaitable, timeout)\<close>: the outcome of the awaitable when it
  completes within the timeout, \<open>TimeoutError\<close> (with an empty text) otherwise. A
  completion at the very instant the timer fires counts as in time.
\<close>

definition wait_for :: "timedelta \<Rightarrow> timedelta option \<Rightarrow> py_exc + 'b \<Rightarrow> py_exc + 'b" where
  "wait_for timeout delay outcome =
     (case delay of
        None \<Rightarrow> Inl (PyExc ''TimeoutError'' [])
      | Some d \<Rightarrow> if d \<le> timeout then outcome else Inl (PyExc ''TimeoutError'' []))"

text \<open>The endpoint's \<open>timeout=30.0\<close>, in microseconds.\<close>

definition receive_timeout :: timedelta where
  "receive_timeout = 30000000"

text \<open>\<open>await asyncio.wait_for(websocket.receive_bytes(), timeout=30.0)\<close>.\<close>

definition receive_bytes :: "'a frame_env \<Rightarrow> py_exc + bytes" where
  "receive_bytes fe = wait_for receive_timeout (receive_delay fe) (receive_outcome fe)"

text \<open>What the environment does once per connection.\<close>

record conn_env =
  accept :: "py_exc option"
  uuid4 :: string
  created_now :: datetime
  activity_now :: datetime
  close_normal :: "py_exc option"
  send_json :: "py_exc option"
  close_error :: "py_exc option"
  close_final :: "py_exc option"

text \<open>
  The exceptions the endpoint raises are imported from src/utils/exceptions.py; they
  are taken to be plain subclasses of \<open>Exception\<close>, so that \<open>str(e)\<close> is the
  message they were built with.
\<close>

definition AudioProcessingError :: "py_exc \<Rightarrow> py_exc" where
  "AudioProcessingError e =
     PyExc ''AudioProcessingError'' (''Audio processing failed: '' @ exc_str e)"

definition TranscriptionError :: "py_exc \<Rightarrow> py_exc" where
  "TranscriptionError e =
     PyExc ''TranscriptionError'' (''Speech recognition failed: '' @ exc_str e)"

definition LLMError :: "py_exc \<Rightarrow> py_exc" where
  "LLMError e =
     PyExc ''LLMError'' (''Language model processing failed: '' @ exc_str e)"

definition VoiceSynthesisError :: "py_exc \<Rightarrow> py_exc" where
  "VoiceSynthesisError e =
     PyExc ''VoiceSynthesisError'' (''Voice synthesis failed: '' @ exc_str e)"

text \<open>
  The body of the inner \<open>try\<close> (lines 93 to 130) for one iteration: the exception that
  leaves it, if any, and the state it leaves behind. \<open>proc\<close> is
  \<open>audio_processor.process\<close>.
\<close>

definition frame_body ::
    "(bytes \<Rightarrow> py_exc + 'a) \<Rightarrow> string \<Rightarrow> 'a frame_env \<Rightarrow> app_state \<Rightarrow>
     py_exc option \<times> app_state" where
  "frame_body proc session_id fe st =
     (case receive_bytes fe of
        Inl e \<Rightarrow> (Some e, st)
      | Inr audio_data \<Rightarrow>
          (let st1 = emit (CallProcess audio_data) st in
           case proc audio_data of
             Inl e \<Rightarrow> (Some (AudioProcessingError e), st1)
           | Inr processed_audio \<Rightarrow>
               (let st2 = emit CallTranscribe st1 in
                case transcribe fe processed_audio of
                  Inl e \<Rightarrow> (Some (TranscriptionError e), st2)
                | Inr t \<Rightarrow>
                    if is_final t then
                      (let st3 = emit (CallGenerateResponse (transcript_text t) session_id) st2 in
                       case generate_response (openai_acreate fe) (language_model st3)
                              (transcript_text t) session_id of
                         (Inl e, lm) \<Rightarrow> (Some (LLMError e), st3\<lparr>language_model := lm\<rparr>)
                       | (Inr response, lm) \<Rightarrow>
                           (let st4 = emit (CallSynthesize response)
                                        (st3\<lparr>language_model := lm\<rparr>) in
                            case synthesize (elevenlabs_generate fe) (voice_synthesizer st4)
                                   response of
                              Inl e \<Rightarrow> (Some (VoiceSynthesisError e), st4)
                            | Inr audio_response \<Rightarrow>
                                (let st5 = emit (SendBytes audio_response
                                                   (send_bytes fe audio_response)) st4 in
                                 case send_bytes fe audio_response of
                                   Some e \<Rightarrow> (Some e, st5)
                                 | None \<Rightarrow>
                                     (None, st5\<lparr>session_manager :=
                                        update_session (session_manager st5) session_id
                                          (update_now fe)\<rparr>))))
                    else
                      (None, st2\<lparr>session_manager :=
                         update_session (session_manager st2) session_id (update_now fe)\<rparr>))))"

text \<open>
  One iteration with its \<open>except asyncio.TimeoutError\<close> clause, which matches the
  class and its subclasses: the loop goes on, is left by \<open>break\<close>, or is left by an
  exception (one that is no \<open>TimeoutError\<close>, or the one \<open>websocket.close\<close> raised
  inside the clause).
\<close>

datatype loop_exit = Continue | Break | Raise py_exc

definition loop_iteration ::
    "(bytes \<Rightarrow> py_exc + 'a) \<Rightarrow> conn_env \<Rightarrow> string \<Rightarrow> 'a frame_env \<Rightarrow> app_state \<Rightarrow>
     loop_exit \<times> app_state" where
  "loop_iteration proc ce session_id fe st =
     (case frame_body proc session_id fe st of
        (None, st') \<Rightarrow> (Continue, st')
      | (Some e, st') \<Rightarrow>
          if isinstance e ''TimeoutError'' then
            (let st'' = emit (Close (Some 1000) (close_normal ce)) st' in
             case close_normal ce of
               None \<Rightarrow> (Break, st'')
             | Some e' \<Rightarrow> (Raise e', st''))
          else (Raise e, st'))"

text \<open>
  \<open>while True\<close> over the iterations the environment provides. When they are used up
  the handler is suspended in \<open>receive_bytes\<close>, waiting for the next frame:
  \<open>Continue\<close>.
\<close>

fun conversation_loop ::
    "(bytes \<Rightarrow> py_exc + 'a) \<Rightarrow> conn_env \<Rightarrow> string \<Rightarrow> 'a frame_env list \<Rightarrow> app_state \<Rightarrow>
     loop_exit \<times> app_state" where
  "conversation_loop proc ce session_id [] st = (Continue, st)"
| "conversation_loop proc ce session_id (fe # fes) st =
     (case loop_iteration proc ce session_id fe st of
        (Continue, st') \<Rightarrow> conversation_loop proc ce session_id fes st'
      | (Break, st') \<Rightarrow> (Break, st')
      | (Raise e, st') \<Rightarrow> (Raise e, st'))"

text \<open>
  The clause \<open>except Exception as e\<close>: \<open>send_json\<close>, then \<open>close\<close> with code 1011
  unless \<open>send_json\<close> raised; whatever they raise is dropped.
\<close>

definition report_error :: "conn_env \<Rightarrow> py_exc \<Rightarrow> app_state \<Rightarrow> app_state" where
  "report_error ce e st =
     (let st1 = emit (SendJson [(''error'', exc_str e)] (send_json ce)) st in
      case send_json ce of
        Some e' \<Rightarrow> st1
      | None \<Rightarrow> emit (Close (Some 1011) (close_error ce)) st1)"

text \<open>The clause \<open>finally\<close>.\<close>

definition finally_block :: "conn_env \<Rightarrow> string \<Rightarrow> app_state \<Rightarrow> app_state" where
  "finally_block ce session_id st =
     emit (Close None (close_final ce))
       (st\<lparr>session_manager := end_session (session_manager st) session_id\<rparr>)"

datatype handler_status = ACCEPT_FAILED py_exc | AWAITING_FRAME | CLOSED

definition websocket_endpoint ::
    "(bytes \<Rightarrow> py_exc + 'a) \<Rightarrow> conn_env \<Rightarrow> 'a frame_env list \<Rightarrow> app_state \<Rightarrow>
     handler_status \<times> app_state" where
  "websocket_endpoint proc ce fes st =
     (case accept ce of
        Some e \<Rightarrow> (ACCEPT_FAILED e, st)
      | None \<Rightarrow>
          (case create_session (session_manager st) (uuid4 ce) (created_now ce)
                  (activity_now ce) of
             (session_id, sm) \<Rightarrow>
               (case conversation_loop proc ce session_id fes (st\<lparr>session_manager := sm\<rparr>) of
                  (Continue, st') \<Rightarrow> (AWAITING_FRAME, st')
                | (Break, st') \<Rightarrow> (CLOSED, finally_block ce session_id st')
                | (Raise e, st') \<Rightarrow>
                    (CLOSED, finally_block ce session_id (report_error ce e st')))))"

text \<open>The events a run of the endpoint added to the trace.\<close>

definition new_events :: "app_state \<Rightarrow> app_state \<Rightarrow> event list" where
  "new_events st st' = drop (length (trace st)) (trace st')"

fun is_SendJson :: "event \<Rightarrow> bool" where
  "is_SendJson (SendJson payload outcome) = True"
| "is_SendJson ev = False"

fun is_provider_call :: "event \<Rightarrow> bool" where
  "is_provider_call (CallGenerateResponse user_input session_id) = True"
| "is_provider_call (CallSynthesize reply) = True"
| "is_provider_call ev = False"

fun is_websocket_call :: "event \<Rightarrow> bool" where
  "is_websocket_call (SendBytes audio outcome) = True"
| "is_websocket_call (SendJson payload outcome) = True"
| "is_websocket_call (Close code outcome) = True"
| "is_websocket_call ev = False"

definition session_inactive :: "app_state \<Rightarrow> string \<Rightarrow> bool" where
  "session_inactive st session_id =
     (case map_of (session_manager st) session_id of
        None \<Rightarrow> False
      | Some sd \<Rightarrow> \<not> is_active sd)"

section \<open>Health endpoint (app.py, health_check)\<close>

datatype pyval = PNone | PStr string | PInt int | PDict "(string \<times> pyval) list"

definition LanguageModel_health_check :: "LanguageModel \<Rightarrow> pyval" where
  "LanguageModel_health_check lm =
     PDict [(''status'', PStr (if llm_is_initialized lm then ''healthy'' else ''not_initialized'')),
            (''provider'', PStr (llm_provider lm))]"

definition VoiceSynthesizer_health_check :: "VoiceSynthesizer \<Rightarrow> pyval" where
  "VoiceSynthesizer_health_check vs =
     PDict [(''status'', PStr (if voice_is_initialized vs then ''healthy'' else ''not_initialized'')),
            (''provider'', PStr (voice_provider vs))]"

text \<open>\<open>isinstance(status, dict) and "status" in status\<close>.\<close>

fun reports_status :: "pyval \<Rightarrow> bool" where
  "reports_status (PDict d) = (map_of d ''status'' \<noteq> None)"
| "reports_status v = False"

text \<open>\<open>status.get("status")\<close>, on a dict.\<close>

fun get_status :: "pyval \<Rightarrow> pyval" where
  "get_status (PDict d) = (case map_of d ''status'' of None \<Rightarrow> PNone | Some v \<Rightarrow> v)"
| "get_status v = PNone"

definition all_healthy :: "(string \<times> pyval) list \<Rightarrow> bool" where
  "all_healthy components_status =
     list_all (\<lambda>status. get_status status = PStr ''healthy'')
       (filter reports_status (map snd components_status))"

definition overall_status :: "(string \<times> pyval) list \<Rightarrow> string" where
  "overall_status components_status =
     (if all_healthy components_status then ''healthy'' else ''degraded'')"

text \<open>
  \<open>health_check\<close>. \<open>speech_health\<close> is the outcome of
  \<open>speech_recognizer.health_check()\<close>, an input of the model; \<open>timestamp\<close> is
  \<open>datetime.now().isoformat()\<close>. Any exception inside the \<open>try\<close> becomes the
  \<open>HTTPException\<close> with status 500.
\<close>

definition components_status_of :: "pyval \<Rightarrow> app_state \<Rightarrow> (string \<times> pyval) list" where
  "components_status_of speech st =
     [(''speech_recognition'', speech),
      (''language_model'', LanguageModel_health_check (language_model st)),
      (''voice_synthesis'', VoiceSynthesizer_health_check (voice_synthesizer st)),
      (''sessions'',
       PDict [(''active_sessions'', PInt (get_active_sessions_count (session_manager st)))])]"

definition health_check :: "py_exc + pyval \<Rightarrow> app_state \<Rightarrow> string \<Rightarrow> py_exc + pyval" where
  "health_check speech_health st timestamp =
     (case speech_health of
        Inl e \<Rightarrow>
          Inl (PyExc ''HTTPException'' ''500: Internal server error during health check'')
      | Inr speech \<Rightarrow>
          Inr (PDict [(''status'', PStr (overall_status (components_status_of speech st))),
                      (''components'', PDict (components_status_of speech st)),
                      (''timestamp'', PStr timestamp)]))"

section \<open>Auxiliary notions and example inputs\<close>

text \<open>The bound the stored histories keep: at most ten messages, in pairs.\<close>

definition history_ok :: "LanguageModel \<Rightarrow> bool" where
  "history_ok lm =
     (\<forall>sid. length (history_get lm sid) \<le> 10 \<and> even (length (history_get lm sid)))"

text \<open>The state of the endpoint right after \<open>create_session\<close>.\<close>

definition after_create :: "conn_env \<Rightarrow> app_state \<Rightarrow> app_state" where
  "after_create ce st =
     st\<lparr>session_manager :=
          snd (create_session (session_manager st) (uuid4 ce) (created_now ce)
                 (activity_now ce))\<rparr>"

text \<open>
  Example inputs: a server whose providers are initialised, a connection on which every
  websocket call returns except the second \<open>close\<close> of the \<open>finally\<close> clause, the
  same connection with a \<open>close\<close> of code 1000 that raises, an audio processor that
  accepts every frame, and frames (each arriving after one second, or never) whose
  transcript is final, interim, or missing because no frame arrived or a provider
  failed.
\<close>

definition example_state :: app_state where
  "example_state =
     \<lparr>session_manager = SessionManager_init,
      language_model = LanguageModel_initialize (LanguageModel_init ''openai''),
      voice_synthesizer = VoiceSynthesizer_initialize (VoiceSynthesizer_init ''elevenlabs''),
      trace = []\<rparr>"

definition example_conn :: conn_env where
  "example_conn =
     \<lparr>accept = None, uuid4 = ''session-1'', created_now = 0, activity_now = 0,
      close_normal = None, send_json = None, close_error = None,
      close_final = Some (PyExc ''RuntimeError'' ''close message already sent'')\<rparr>"

definition example_conn_close_fails :: conn_env where
  "example_conn_close_fails =
     example_conn\<lparr>close_normal := Some (PyExc ''RuntimeError'' ''boom'')\<rparr>"

definition example_proc :: "bytes \<Rightarrow> py_exc + unit" where
  "example_proc audio_data = Inr ()"

definition frame_final :: "unit frame_env" where
  "frame_final =
     \<lparr>receive_delay = Some 1000000,
      receive_outcome = Inr [0, 0, 0, 0],
      transcribe = (\<lambda>audio. Inr (Transcript ''hello'' True)),
      openai_acreate = (\<lambda>messages. Inr ''hi there''),
      elevenlabs_generate = (\<lambda>reply. Inr [1, 2]),
      send_bytes = (\<lambda>audio. None),
      update_now = 10\<rparr>"

definition frame_interim :: "unit frame_env" where
  "frame_interim = frame_final\<lparr>transcribe := (\<lambda>audio. Inr (Transcript ''hel'' False))\<rparr>"

definition frame_timeout :: "unit frame_env" where
  "frame_timeout = frame_final\<lparr>receive_delay := None\<rparr>"

definition frame_transcription_fault :: "unit frame_env" where
  "frame_transcription_fault =
     frame_final\<lparr>transcribe := (\<lambda>audio. Inl (PyExc ''ConnectionError'' ''provider fault''))\<rparr>"

definition frame_synthesis_fault :: "unit frame_env" where
  "frame_synthesis_fault =
     frame_final\<lparr>elevenlabs_generate :=
                    (\<lambda>reply. Inl (PyExc ''ConnectionError'' ''provider fault''))\<rparr>"

definition example_ap :: AudioProcessor where
  "example_ap = \<lparr>sample_rate = 16000, channels = 1, chunk_size = 1024, buffer_size = 4096\<rparr>"

definition example_below :: "float32 \<Rightarrow> bool" where
  "example_below x = (x = float32_zero)"

definition example_agc :: "float32 list \<Rightarrow> float32 list" where
  "example_agc xs = xs"

definition frame_malformed :: "ndarray frame_env" where
  "frame_malformed =
     \<lparr>receive_delay = Some 1000000,
      receive_outcome = Inr [1, 2, 3],
      transcribe = (\<lambda>audio. Inr (Transcript ''hello'' True)),
      openai_acreate = (\<lambda>messages. Inr ''hi there''),
      elevenlabs_generate = (\<lambda>reply. Inr [1, 2]),
      send_bytes = (\<lambda>audio. None),
      update_now = 10\<rparr>"

lemmas example_defs =
  example_state_def example_conn_def example_conn_close_fails_def example_proc_def frame_final_def frame_interim_def
  frame_timeout_def frame_transcription_fault_def frame_synthesis_fault_def
  SessionManager_init_def LanguageModel_init_def LanguageModel_initialize_def
  VoiceSynthesizer_init_def VoiceSynthesizer_initialize_def

lemmas receive_defs = receive_bytes_def wait_for_def receive_timeout_def

lemmas endpoint_defs =
  websocket_endpoint_def conversation_loop.simps loop_iteration_def frame_body_def
  report_error_def finally_block_def emit_def create_session_def update_session_def
  end_session_def generate_response_def generate_openai_response_def synthesize_def
  history_get_def AudioProcessingError_def TranscriptionError_def LLMError_def
  VoiceSynthesisError_def new_events_def session_inactive_def after_create_def Let_def
  receive_bytes_def wait_for_def receive_timeout_def isinstance_def

section \<open>Properties of the session registry\<close>

lemma timedelta_minutes_ok:
  "timedelta_ok m \<Longrightarrow> timedelta_minutes m = Inr (m * 60000000)"
  by (auto simp: timedelta_ok_def timedelta_minutes_def)

lemma sessions_to_remove_eq:
  "timedelta_ok m \<Longrightarrow>
   sessions_to_remove t m items = Inr (map fst (filter (\<lambda>(k, sd). swept t m sd) items))"
  by (induction items) (auto simp: timedelta_minutes_ok swept_def)

lemma delete_sessions_eq:
  "distinct ids \<Longrightarrow> set ids \<subseteq> fst ` set sm \<Longrightarrow>
   delete_sessions ids sm = Inr (filter (\<lambda>(k, sd). k \<notin> set ids) sm)"
proof (induction ids arbitrary: sm)
  case Nil
  then show ?case by simp
next
  case (Cons k ks)
  have sub: "set ks \<subseteq> fst ` set (AList.delete k sm)"
  proof
    fix x assume x: "x \<in> set ks"
    from x Cons.prems(1) have "x \<noteq> k" by auto
    moreover from x Cons.prems(2) have "x \<in> fst ` set sm" by auto
    then obtain sd where "(x, sd) \<in> set sm" by force
    ultimately have "(x, sd) \<in> set (AList.delete k sm)" by (simp add: AList.delete_eq)
    then show "x \<in> fst ` set (AList.delete k sm)" by force
  qed
  have "delete_sessions ks (AList.delete k sm) =
        Inr (filter (\<lambda>(k', sd). k' \<notin> set ks) (AList.delete k sm))"
    using Cons.IH [OF _ sub] Cons.prems by simp
  moreover have "filter (\<lambda>(k', sd). k' \<notin> set ks) (AList.delete k sm) =
                 filter (\<lambda>(k', sd). k' \<notin> set (k # ks)) sm"
    by (auto simp: AList.delete_eq intro: filter_cong)
  ultimately show ?case using Cons.prems by simp
qed

lemma cleanup_eq:
  assumes "distinct (map fst sm)" and "timedelta_ok m"
  shows "cleanup_inactive_sessions sm t m = Inr (filter (\<lambda>(k, sd). \<not> swept t m sd) sm)"
proof -
  let ?ids = "map fst (filter (\<lambda>(k, sd). swept t m sd) sm)"
  have d: "distinct ?ids"
    using assms(1) by (simp add: distinct_map_filter)
  have s: "set ?ids \<subseteq> fst ` set sm" by auto
  have "filter (\<lambda>(k, sd). k \<notin> set ?ids) sm = filter (\<lambda>(k, sd). \<not> swept t m sd) sm"
  proof (rule filter_cong [OF refl])
    fix x assume x: "x \<in> set sm"
    obtain k sd where [simp]: "x = (k, sd)" by (cases x)
    have "k \<in> set ?ids \<longleftrightarrow> swept t m sd"
    proof
      assume "k \<in> set ?ids"
      then obtain sd' where "(k, sd') \<in> set sm" "swept t m sd'" by auto
      with x assms(1) show "swept t m sd"
        by (metis \<open>x = (k, sd)\<close> eq_key_imp_eq_value)
    next
      assume "swept t m sd"
      with x show "k \<in> set ?ids" by force
    qed
    then show "(case x of (k, sd) \<Rightarrow> k \<notin> set ?ids) = (case x of (k, sd) \<Rightarrow> \<not> swept t m sd)"
      by simp
  qed
  then show ?thesis
    using delete_sessions_eq [OF d s]
    by (simp add: cleanup_inactive_sessions_def sessions_to_remove_eq [OF assms(2)])
qed

lemma map_of_filter_values:
  "distinct (map fst al) \<Longrightarrow>
   map_of (filter (\<lambda>(k, v). \<not> P v) al) k =
     (case map_of al k of None \<Rightarrow> None | Some v \<Rightarrow> if P v then None else Some v)"
proof (induction al)
  case Nil
  then show ?case by simp
next
  case (Cons p al)
  obtain k' v' where p: "p = (k', v')" by (cases p)
  from Cons.prems p have notin: "k' \<notin> fst ` set al" by auto
  have none: "map_of (filter (\<lambda>(k, v). \<not> P v) al) k' = None"
    using notin by (auto simp: map_of_eq_None_iff image_iff)
  show ?case using Cons p none by (auto split: option.splits)
qed

lemma end_session_known:
  "map_of sm sid = Some sd \<Longrightarrow>
   end_session sm sid = AList.update sid (sd\<lparr>is_active := False\<rparr>) sm"
  by (simp add: end_session_def)

lemma cleanup_lookup:
  assumes "distinct (map fst sm)" and "timedelta_ok m"
  shows "\<exists>sm'. cleanup_inactive_sessions sm t m = Inr sm' \<and>
           (\<forall>k. map_of sm' k =
              (case map_of sm k of None \<Rightarrow> None
               | Some sd \<Rightarrow> if swept t m sd then None else Some sd))"
  using map_of_filter_values [OF assms(1), of "swept t m"]
  by (simp add: cleanup_eq [OF assms])

text \<open>
  C10. Ending a known session changes only that session's active flag, to false: its
  creation and last-activity timestamps stay as they were, the registry keeps the same
  keys in the same order, and every other session is untouched. So the age the sweep
  compares for the ended session is the time since its last activity update: a sweep at
  time \<open>t\<close> removes it exactly when \<open>t - last_activity\<close> exceeds the maximal age.
\<close>

theorem end_session_frame:
  assumes known: "map_of sm sid = Some sd" and dist: "distinct (map fst sm)"
      and ok: "timedelta_ok m"
  shows "map_of (end_session sm sid) sid = Some (sd\<lparr>is_active := False\<rparr>) \<and>
         created_at (sd\<lparr>is_active := False\<rparr>) = created_at sd \<and>
         last_activity (sd\<lparr>is_active := False\<rparr>) = last_activity sd \<and>
         map fst (end_session sm sid) = map fst sm \<and>
         (\<forall>other. other \<noteq> sid \<longrightarrow> map_of (end_session sm sid) other = map_of sm other) \<and>
         (\<exists>sm'. cleanup_inactive_sessions (end_session sm sid) t m = Inr sm' \<and>
            (map_of sm' sid = None \<longleftrightarrow> t - last_activity sd > m * 60000000))"
proof -
  let ?sm = "end_session sm sid"
  have eq: "?sm = AList.update sid (sd\<lparr>is_active := False\<rparr>) sm"
    using known by (rule end_session_known)
  have in_keys: "sid \<in> set (map fst sm)"
    using map_of_SomeD [OF known] by force
  have 1: "map_of ?sm sid = Some (sd\<lparr>is_active := False\<rparr>)"
    by (simp add: eq AList.update_conv')
  have 2: "map fst ?sm = map fst sm"
    using in_keys by (simp add: eq AList.update_keys)
  have 3: "\<forall>other. other \<noteq> sid \<longrightarrow> map_of ?sm other = map_of sm other"
    by (simp add: eq AList.update_conv')
  have dist': "distinct (map fst ?sm)" using dist 2 by simp
  obtain sm' where c: "cleanup_inactive_sessions ?sm t m = Inr sm'"
    and l: "\<forall>k. map_of sm' k =
              (case map_of ?sm k of None \<Rightarrow> None
               | Some sd \<Rightarrow> if swept t m sd then None else Some sd)"
    using cleanup_lookup [OF dist' ok] by blast
  have "map_of sm' sid = None \<longleftrightarrow> t - last_activity sd > m * 60000000"
    using l 1 by (simp add: swept_def)
  with c 1 2 3 show ?thesis by simp
qed

text \<open>
  Witness for C10: a registry with two sessions, the first one ended; the sweep after
  31 minutes with a maximal age of 30 minutes removes it.
\<close>

theorem end_session_frame_witness:
  "map_of (end_session
       [(''a'', \<lparr>created_at = 0, last_activity = 5, is_active = True\<rparr>),
        (''b'', \<lparr>created_at = 1, last_activity = 1, is_active = True\<rparr>)] ''a'') ''b''
     = Some \<lparr>created_at = 1, last_activity = 1, is_active = True\<rparr> \<and>
   map_of (end_session
       [(''a'', \<lparr>created_at = 0, last_activity = 5, is_active = True\<rparr>),
        (''b'', \<lparr>created_at = 1, last_activity = 1, is_active = True\<rparr>)] ''a'') ''a''
     = Some \<lparr>created_at = 0, last_activity = 5, is_active = False\<rparr> \<and>
   (\<exists>sm'. cleanup_inactive_sessions (end_session
       [(''a'', \<lparr>created_at = 0, last_activity = 5, is_active = True\<rparr>),
        (''b'', \<lparr>created_at = 1, last_activity = 1, is_active = True\<rparr>)] ''a'')
       1860000005 30 = Inr sm' \<and> map_of sm' ''a'' = None)"
proof -
  let ?sm = "[(''a'', \<lparr>created_at = 0, last_activity = 5, is_active = True\<rparr>),
              (''b'', \<lparr>created_at = 1, last_activity = 1, is_active = True\<rparr>)]"
  have known: "map_of ?sm ''a'' = Some \<lparr>created_at = 0, last_activity = 5, is_active = True\<rparr>"
    by simp
  have dist: "distinct (map fst ?sm)" by simp
  have ok: "timedelta_ok 30" by (simp add: timedelta_ok_def)
  show ?thesis
    using end_session_frame [OF known dist ok, of 1860000005] by simp
qed

text \<open>
  C7, as stated, fails: the sweep has no record of when a session was ended. A session
  created at time 0 with its last activity at 0 and ended 100 minutes later, at
  \<open>T = 6000000000\<close>, is removed by a sweep with a maximal age of 30 minutes one
  microsecond before \<open>T + 30 minutes\<close>, where the claim has it retained.
\<close>

theorem sweep_measured_from_end_counterexample:
  "cleanup_inactive_sessions
     (end_session (snd (create_session SessionManager_init ''s'' 0 0)) ''s'')
     (6000000000 + 30 * 60000000 - 1) 30 = Inr []"
  by (simp add: cleanup_inactive_sessions_def end_session_def create_session_def
      SessionManager_init_def timedelta_minutes_def AList.delete_eq)

text \<open>
  C7, amended. The sweep measures inactivity from the last activity update. An inactive
  session whose last activity was at time \<open>A\<close> is removed by a sweep with maximal age
  \<open>M\<close> at \<open>A + M + eps\<close> and retained by one at \<open>A + M - eps\<close>, for every
  \<open>eps > 0\<close>. At any time the sweep removes exactly the inactive sessions whose time
  since the last activity exceeds the maximal age; it never removes an active session
  and changes no session it keeps.
\<close>

theorem sweep_from_last_activity:
  assumes dist: "distinct (map fst sm)" and ok: "timedelta_ok m"
  shows "(\<exists>sm'. cleanup_inactive_sessions sm t m = Inr sm' \<and>
            (\<forall>sid. map_of sm' sid =
               (case map_of sm sid of
                  None \<Rightarrow> None
                | Some sd \<Rightarrow>
                    if \<not> is_active sd \<and> t - last_activity sd > m * 60000000
                    then None else Some sd))) \<and>
         (\<forall>sid sd eps. map_of sm sid = Some sd \<and> \<not> is_active sd \<and> 0 < eps \<longrightarrow>
            (\<exists>sm'. cleanup_inactive_sessions sm (last_activity sd + m * 60000000 + eps) m
                      = Inr sm' \<and> map_of sm' sid = None) \<and>
            (\<exists>sm'. cleanup_inactive_sessions sm (last_activity sd + m * 60000000 - eps) m
                      = Inr sm' \<and> map_of sm' sid = Some sd))"
proof -
  have general: "\<exists>sm'. cleanup_inactive_sessions sm u m = Inr sm' \<and>
            (\<forall>sid. map_of sm' sid =
               (case map_of sm sid of
                  None \<Rightarrow> None
                | Some sd \<Rightarrow>
                    if \<not> is_active sd \<and> u - last_activity sd > m * 60000000
                    then None else Some sd))" for u
    using cleanup_lookup [OF dist ok, of u] unfolding swept_def by simp
  have eps: "(\<exists>sm'. cleanup_inactive_sessions sm (last_activity sd + m * 60000000 + eps) m
                      = Inr sm' \<and> map_of sm' sid = None) \<and>
            (\<exists>sm'. cleanup_inactive_sessions sm (last_activity sd + m * 60000000 - eps) m
                      = Inr sm' \<and> map_of sm' sid = Some sd)"
    if "map_of sm sid = Some sd" "\<not> is_active sd" "0 < eps" for sid sd eps
  proof
    from general [of "last_activity sd + m * 60000000 + eps"] that
    show "\<exists>sm'. cleanup_inactive_sessions sm (last_activity sd + m * 60000000 + eps) m
                      = Inr sm' \<and> map_of sm' sid = None"
      by auto
    from general [of "last_activity sd + m * 60000000 - eps"] that
    show "\<exists>sm'. cleanup_inactive_sessions sm (last_activity sd + m * 60000000 - eps) m
                      = Inr sm' \<and> map_of sm' sid = Some sd"
      by auto
  qed
  from general [of t] eps show ?thesis by blast
qed

text \<open>
  Witness for C7: one ended session and one active session of the same age; the sweep
  one microsecond after 30 minutes removes the ended one and keeps the active one.
\<close>

theorem sweep_from_last_activity_witness:
  "\<exists>sm'. cleanup_inactive_sessions
       [(''a'', \<lparr>created_at = 0, last_activity = 0, is_active = False\<rparr>),
        (''b'', \<lparr>created_at = 0, last_activity = 0, is_active = True\<rparr>)]
       1800000001 30 = Inr sm' \<and>
     map_of sm' ''a'' = None \<and>
     map_of sm' ''b'' = Some \<lparr>created_at = 0, last_activity = 0, is_active = True\<rparr>"
proof -
  let ?sm = "[(''a'', \<lparr>created_at = 0, last_activity = 0, is_active = False\<rparr>),
              (''b'', \<lparr>created_at = 0, last_activity = 0, is_active = True\<rparr>)]"
  have dist: "distinct (map fst ?sm)" by simp
  have ok: "timedelta_ok 30" by (simp add: timedelta_ok_def)
  from sweep_from_last_activity [OF dist ok, of 1800000001]
  obtain sm' where c: "cleanup_inactive_sessions ?sm 1800000001 30 = Inr sm'"
    and l: "\<forall>sid. map_of sm' sid =
               (case map_of ?sm sid of
                  None \<Rightarrow> None
                | Some sd \<Rightarrow>
                    if \<not> is_active sd \<and> 1800000001 - last_activity sd > 30 * 60000000
                    then None else Some sd)"
    by blast
  from l have "map_of sm' ''a'' = None"
    and "map_of sm' ''b'' = Some \<lparr>created_at = 0, last_activity = 0, is_active = True\<rparr>"
    by simp_all
  with c show ?thesis by blast
qed

section \<open>Properties of the language model\<close>

lemma history_get_upd:
  "history_get (lm\<lparr>conversation_history := (conversation_history lm)(sid \<mapsto> h)\<rparr>) k =
     (if k = sid then h else history_get lm k)"
  by (simp add: history_get_def)

lemma generate_openai_response_history:
  "generate_openai_response acreate lm user_input sid = (r, lm') \<Longrightarrow>
   history_get lm' k =
     (case r of
        Inl e \<Rightarrow> history_get lm k
      | Inr reply \<Rightarrow>
          if k = sid
          then (let extended = history_get lm sid @
                      [Message ''user'' user_input, Message ''assistant'' reply]
                in drop (length extended - 10) extended)
          else history_get lm k)"
  by (auto simp: generate_openai_response_def Let_def history_get_upd split: sum.splits)

lemma generate_response_history:
  "generate_response acreate lm user_input sid = (r, lm') \<Longrightarrow>
   history_get lm' k =
     (case r of
        Inl e \<Rightarrow> history_get lm k
      | Inr reply \<Rightarrow>
          if k = sid
          then (let extended = history_get lm sid @
                      [Message ''user'' user_input, Message ''assistant'' reply]
                in drop (length extended - 10) extended)
          else history_get lm k)"
  using generate_openai_response_history [of acreate lm user_input sid r lm' k]
  by (auto simp: generate_response_def split: if_splits)

lemma generate_response_fail_unchanged:
  "generate_response acreate lm user_input sid = (Inl e, lm') \<Longrightarrow> lm' = lm"
  by (auto simp: generate_response_def generate_openai_response_def Let_def
      split: if_splits sum.splits)

lemma trim_ok:
  "length h \<le> 10 \<Longrightarrow> even (length h) \<Longrightarrow>
   length (drop (length (h @ [a, b]) - 10) (h @ [a, b])) \<le> 10 \<and>
   even (length (drop (length (h @ [a, b]) - 10) (h @ [a, b])))"
  by (cases "length h = 10") auto

lemma history_ok_step: "history_ok lm \<Longrightarrow> history_ok (lm_step lm c)"
proof (cases c)
  case Initialize
  assume "history_ok lm"
  then show ?thesis using Initialize
    by (simp add: history_ok_def LanguageModel_initialize_def history_get_def)
next
  case (GenerateResponse acreate user_input sid)
  assume ok: "history_ok lm"
  obtain r lm' where g: "generate_response acreate lm user_input sid = (r, lm')"
    by (cases "generate_response acreate lm user_input sid")
  have "length (history_get lm' k) \<le> 10 \<and> even (length (history_get lm' k))" for k
  proof (cases r)
    case (Inl e)
    then show ?thesis using generate_response_history [OF g, of k] ok
      by (simp add: history_ok_def)
  next
    case (Inr reply)
    show ?thesis
    proof (cases "k = sid")
      case True
      have "length (history_get lm sid) \<le> 10" "even (length (history_get lm sid))"
        using ok by (simp_all add: history_ok_def)
      from trim_ok [OF this] show ?thesis
        using generate_response_history [OF g, of k] Inr True by (simp add: Let_def)
    next
      case False
      then show ?thesis using generate_response_history [OF g, of k] Inr ok
        by (simp add: history_ok_def)
    qed
  qed
  then show ?thesis using GenerateResponse g by (simp add: history_ok_def)
next
  case (ClearHistory sid)
  assume "history_ok lm"
  then show ?thesis using ClearHistory
    by (auto simp: history_ok_def clear_history_def history_get_def)
qed

lemma history_ok_run: "history_ok lm \<Longrightarrow> history_ok (lm_run lm calls)"
  unfolding lm_run_def
  by (induction calls arbitrary: lm) (simp_all add: history_ok_step)

lemma history_ok_init: "history_ok (LanguageModel_init p)"
  by (simp add: history_ok_def LanguageModel_init_def history_get_def)

text \<open>
  C2. Whatever calls are made on the language model after its construction (exchanges
  for any session with any outcome of the provider, initialisation, clearing), the
  history stored for every session identifier has even length and at most ten messages;
  the calls are arbitrary, so this holds after every exchange.
\<close>

theorem history_length_invariant:
  "length (history_get (lm_run (LanguageModel_init p) calls) sid) \<le> 10 \<and>
   even (length (history_get (lm_run (LanguageModel_init p) calls) sid))"
  using history_ok_run [OF history_ok_init, of p calls] by (simp add: history_ok_def)

text \<open>
  An example run: seven exchanges of one session, the third of which fails at the
  provider; the stored history holds the last five completed exchanges.
\<close>

lemma history_cap_example:
  "map content (history_get
     (lm_run (LanguageModel_init ''openai'')
        [Initialize,
         GenerateResponse (\<lambda>messages. Inr ''a1'') ''u1'' ''s'',
         GenerateResponse (\<lambda>messages. Inr ''a2'') ''u2'' ''s'',
         GenerateResponse (\<lambda>messages. Inl (PyExc ''APIError'' ''down'')) ''u3'' ''s'',
         GenerateResponse (\<lambda>messages. Inr ''a4'') ''u4'' ''s'',
         GenerateResponse (\<lambda>messages. Inr ''a5'') ''u5'' ''s'',
         GenerateResponse (\<lambda>messages. Inr ''a6'') ''u6'' ''s'',
         GenerateResponse (\<lambda>messages. Inr ''a7'') ''u7'' ''s'']) ''s'')
   = [''u2'', ''a2'', ''u4'', ''a4'', ''u5'', ''a5'', ''u6'', ''a6'', ''u7'', ''a7'']"
  by (simp add: lm_run_def LanguageModel_init_def LanguageModel_initialize_def
      generate_response_def generate_openai_response_def history_get_def Let_def)

section \<open>Properties of the conversation endpoint\<close>

lemma update_session_keys: "map fst (update_session sm sid now) = map fst sm"
proof (cases "map_of sm sid")
  case None
  then show ?thesis by (simp add: update_session_def)
next
  case (Some sd)
  then have "sid \<in> set (map fst sm)" using map_of_SomeD [OF Some] by force
  then show ?thesis using Some by (simp add: update_session_def AList.update_keys)
qed

lemma end_session_inactive:
  assumes "sid \<in> set (map fst sm)"
  shows "\<exists>sd. map_of (end_session sm sid) sid = Some sd \<and> \<not> is_active sd"
proof -
  from assms obtain sd where "map_of sm sid = Some sd"
    by (metis map_of_eq_None_iff not_Some_eq set_map)
  then show ?thesis by (simp add: end_session_def AList.update_conv')
qed

lemma frame_body_nonfinal:
  assumes "receive_bytes fe = Inr audio_data" and "proc audio_data = Inr processed"
      and "transcribe fe processed = Inr t" and "\<not> is_final t"
  shows "frame_body proc sid fe st =
           (None, st\<lparr>session_manager := update_session (session_manager st) sid (update_now fe),
                     trace := trace st @ [CallProcess audio_data, CallTranscribe]\<rparr>)"
  using assms by (simp add: frame_body_def emit_def Let_def)

lemma frame_body_keys:
  "map fst (session_manager (snd (frame_body proc sid fe st))) = map fst (session_manager st)"
  by (simp add: frame_body_def emit_def Let_def update_session_keys
      split: sum.splits prod.splits option.splits)

lemma frame_body_trace:
  "\<exists>evs. trace (snd (frame_body proc sid fe st)) = trace st @ evs \<and>
         filter is_SendJson evs = []"
  by (simp add: frame_body_def emit_def Let_def
      split: sum.splits prod.splits option.splits)

lemma loop_iteration_Continue:
  "loop_iteration proc ce sid fe st = (Continue, st') \<Longrightarrow>
   frame_body proc sid fe st = (None, st')"
  by (auto simp: loop_iteration_def Let_def split: prod.splits option.splits if_splits)

lemma conversation_loop_Continue:
  "conversation_loop proc ce sid fes st = (Continue, st') \<Longrightarrow>
   map fst (session_manager st') = map fst (session_manager st) \<and>
   (\<exists>evs. trace st' = trace st @ evs \<and> filter is_SendJson evs = [])"
proof (induction fes arbitrary: st)
  case Nil
  then show ?case by simp
next
  case (Cons fe fes)
  obtain x st1 where it: "loop_iteration proc ce sid fe st = (x, st1)"
    by (cases "loop_iteration proc ce sid fe st")
  with Cons.prems have x: "x = Continue" and rest: "conversation_loop proc ce sid fes st1 = (Continue, st')"
    by (auto split: loop_exit.splits)
  from it x have fb: "frame_body proc sid fe st = (None, st1)"
    by (simp add: loop_iteration_Continue)
  from frame_body_keys [of proc sid fe st] fb
  have k1: "map fst (session_manager st1) = map fst (session_manager st)" by simp
  from frame_body_trace [of proc sid fe st] fb
  obtain evs1 where t1: "trace st1 = trace st @ evs1" "filter is_SendJson evs1 = []" by auto
  from Cons.IH [OF rest] obtain evs2 where
    k2: "map fst (session_manager st') = map fst (session_manager st1)" and
    t2: "trace st' = trace st1 @ evs2" "filter is_SendJson evs2 = []" by auto
  from t1 t2 have "trace st' = trace st @ (evs1 @ evs2) \<and> filter is_SendJson (evs1 @ evs2) = []"
    by simp
  with k1 k2 show ?case by metis
qed

lemma conversation_loop_append:
  "conversation_loop proc ce sid pre st = (Continue, st1) \<Longrightarrow>
   conversation_loop proc ce sid (pre @ fes) st = conversation_loop proc ce sid fes st1"
proof (induction pre arbitrary: st)
  case Nil
  then show ?case by simp
next
  case (Cons fe pre)
  obtain x st2 where it: "loop_iteration proc ce sid fe st = (x, st2)"
    by (cases "loop_iteration proc ce sid fe st")
  with Cons.prems have x: "x = Continue" and rest: "conversation_loop proc ce sid pre st2 = (Continue, st1)"
    by (auto split: loop_exit.splits)
  show ?case using it x Cons.IH [OF rest] by simp
qed

lemma after_create_facts:
  "uuid4 ce \<in> set (map fst (session_manager (after_create ce st)))"
  "trace (after_create ce st) = trace st"
  by (simp_all add: after_create_def create_session_def AList.update_keys)

lemma websocket_endpoint_unfold:
  "accept ce = None \<Longrightarrow>
   websocket_endpoint proc ce fes st =
     (case conversation_loop proc ce (uuid4 ce) fes (after_create ce st) of
        (Continue, st') \<Rightarrow> (AWAITING_FRAME, st')
      | (Break, st') \<Rightarrow> (CLOSED, finally_block ce (uuid4 ce) st')
      | (Raise e, st') \<Rightarrow> (CLOSED, finally_block ce (uuid4 ce) (report_error ce e st')))"
  by (simp add: websocket_endpoint_def after_create_def create_session_def)

text \<open>
  The clause \<open>except asyncio.TimeoutError\<close> takes an instance of a subclass as well:
  a \<open>send_bytes\<close> that raises one ends the loop by \<open>close\<close> with code 1000 and
  \<open>break\<close>.
\<close>

lemma timeout_subclass_example:
  "loop_iteration example_proc example_conn ''session-1''
     (frame_final\<lparr>send_bytes :=
        (\<lambda>audio. Some (PyExcDerived ''SendTimeout'' [''TimeoutError''] ''slow''))\<rparr>)
     (after_create example_conn example_state) =
   (Break,
    \<lparr>session_manager =
       [(''session-1'', \<lparr>created_at = 0, last_activity = 0, is_active = True\<rparr>)],
     language_model =
       \<lparr>llm_provider = ''openai'', llm_is_initialized = True,
        conversation_history =
          [''session-1'' \<mapsto> [Message ''user'' ''hello'', Message ''assistant'' ''hi there'']]\<rparr>,
     voice_synthesizer = voice_synthesizer example_state,
     trace =
       [CallProcess [0, 0, 0, 0], CallTranscribe,
        CallGenerateResponse ''hello'' ''session-1'', CallSynthesize ''hi there'',
        SendBytes [1, 2] (Some (PyExcDerived ''SendTimeout'' [''TimeoutError''] ''slow'')),
        Close (Some 1000) None]\<rparr>)"
  by (simp add: example_defs endpoint_defs)



lemma frame_body_stage_fault:
  assumes rcv: "receive_bytes fe = Inr audio_data"
    and fault:
      "(proc audio_data = Inl e \<and> x = AudioProcessingError e) \<or>
       (\<exists>a. proc audio_data = Inr a \<and> transcribe fe a = Inl e \<and> x = TranscriptionError e) \<or>
       (\<exists>a t. proc audio_data = Inr a \<and> transcribe fe a = Inr t \<and> is_final t \<and>
          fst (generate_response (openai_acreate fe) (language_model st)
                 (transcript_text t) sid) = Inl e \<and> x = LLMError e) \<or>
       (\<exists>a t reply lm. proc audio_data = Inr a \<and> transcribe fe a = Inr t \<and> is_final t \<and>
          generate_response (openai_acreate fe) (language_model st)
                 (transcript_text t) sid = (Inr reply, lm) \<and>
          synthesize (elevenlabs_generate fe) (voice_synthesizer st) reply = Inl e \<and>
          x = VoiceSynthesisError e)"
  shows "fst (frame_body proc sid fe st) = Some x \<and> \<not> isinstance x ''TimeoutError''"
  using fault
proof (elim disjE exE conjE)
  assume "proc audio_data = Inl e" "x = AudioProcessingError e"
  then show ?thesis using rcv
    by (simp add: frame_body_def emit_def Let_def AudioProcessingError_def isinstance_def)
next
  fix a assume "proc audio_data = Inr a" "transcribe fe a = Inl e" "x = TranscriptionError e"
  then show ?thesis using rcv
    by (simp add: frame_body_def emit_def Let_def TranscriptionError_def isinstance_def)
next
  fix a t
  assume "proc audio_data = Inr a" "transcribe fe a = Inr t" "is_final t"
    and g: "fst (generate_response (openai_acreate fe) (language_model st)
                 (transcript_text t) sid) = Inl e" and "x = LLMError e"
  moreover obtain lm where "generate_response (openai_acreate fe) (language_model st)
                 (transcript_text t) sid = (Inl e, lm)"
    using g by (cases "generate_response (openai_acreate fe) (language_model st)
                 (transcript_text t) sid") auto
  ultimately show ?thesis using rcv
    by (simp add: frame_body_def emit_def Let_def LLMError_def isinstance_def)
next
  fix a t reply lm
  assume "proc audio_data = Inr a" "transcribe fe a = Inr t" "is_final t"
    "generate_response (openai_acreate fe) (language_model st)
                 (transcript_text t) sid = (Inr reply, lm)"
    "synthesize (elevenlabs_generate fe) (voice_synthesizer st) reply = Inl e"
    "x = VoiceSynthesisError e"
  then show ?thesis using rcv
    by (simp add: frame_body_def emit_def Let_def VoiceSynthesisError_def isinstance_def)
qed

lemma stage_messages_distinct:
  "distinct [exc_str (AudioProcessingError e1), exc_str (TranscriptionError e2),
             exc_str (LLMError e3), exc_str (VoiceSynthesisError e4)]"
  by (simp add: AudioProcessingError_def TranscriptionError_def LLMError_def
      VoiceSynthesisError_def)

text \<open>
  C1. When the frame that arrived is processed and its transcript is not final, the
  iteration calls the audio processor and the transcription and nothing else: no call of
  the generation or of the synthesis provider, no call on the websocket. The language
  model is left as it was, the session's last activity is set to the current time
  (\<open>update_session\<close>), and the loop goes on to wait for the next frame.
\<close>

theorem finality_gating:
  assumes "receive_bytes fe = Inr audio_data" and "proc audio_data = Inr processed"
      and "transcribe fe processed = Inr t" and "\<not> is_final t"
  shows "loop_iteration proc ce sid fe st =
           (Continue,
            st\<lparr>session_manager := update_session (session_manager st) sid (update_now fe),
               trace := trace st @ [CallProcess audio_data, CallTranscribe]\<rparr>) \<and>
         filter is_provider_call (new_events st (snd (loop_iteration proc ce sid fe st))) = [] \<and>
         filter is_websocket_call (new_events st (snd (loop_iteration proc ce sid fe st))) = [] \<and>
         language_model (snd (loop_iteration proc ce sid fe st)) = language_model st \<and>
         (\<forall>sd. map_of (session_manager st) sid = Some sd \<longrightarrow>
            map_of (session_manager (snd (loop_iteration proc ce sid fe st))) sid
              = Some (sd\<lparr>last_activity := update_now fe\<rparr>)) \<and>
         conversation_loop proc ce sid (fe # fes) st =
           conversation_loop proc ce sid fes (snd (loop_iteration proc ce sid fe st))"
proof -
  have "frame_body proc sid fe st =
           (None, st\<lparr>session_manager := update_session (session_manager st) sid (update_now fe),
                     trace := trace st @ [CallProcess audio_data, CallTranscribe]\<rparr>)"
    using assms by (rule frame_body_nonfinal)
  then show ?thesis
    by (simp add: loop_iteration_def new_events_def update_session_def AList.update_conv')
qed

text \<open>
  Witness for C1: the first frame of a connection, with an interim transcript.
\<close>

theorem finality_gating_witness:
  "loop_iteration example_proc example_conn ''session-1'' frame_interim
     (after_create example_conn example_state) =
     (Continue,
      \<lparr>session_manager =
         [(''session-1'', \<lparr>created_at = 0, last_activity = 10, is_active = True\<rparr>)],
       language_model = language_model example_state,
       voice_synthesizer = voice_synthesizer example_state,
       trace = [CallProcess [0, 0, 0, 0], CallTranscribe]\<rparr>)"
proof -
  have 1: "receive_bytes frame_interim = Inr [0, 0, 0, 0]"
    by (simp add: example_defs receive_defs)
  have 2: "example_proc [0, 0, 0, 0] = Inr ()"
    by (simp add: example_defs)
  have 3: "transcribe frame_interim () = Inr (Transcript ''hel'' False)"
    by (simp add: example_defs)
  have 4: "\<not> is_final (Transcript ''hel'' False)" by simp
  have "loop_iteration example_proc example_conn ''session-1'' frame_interim
           (after_create example_conn example_state) =
           (Continue,
            (after_create example_conn example_state)
              \<lparr>session_manager :=
                 update_session (session_manager (after_create example_conn example_state))
                   ''session-1'' (update_now frame_interim),
               trace := trace (after_create example_conn example_state) @
                 [CallProcess [0, 0, 0, 0], CallTranscribe]\<rparr>)"
    using 1 2 3 4 by (rule finality_gating [THEN conjunct1])
  then show ?thesis
    by (simp add: example_defs after_create_def create_session_def update_session_def)
qed




text \<open>
  C5, as stated, fails on the shape of the payload: when the transcription raises, the
  object sent to the client has the single key \<open>error\<close>; there is no key \<open>type\<close>.
\<close>

theorem error_payload_counterexample:
  "new_events example_state
     (snd (websocket_endpoint example_proc example_conn [frame_transcription_fault]
             example_state)) =
     [CallProcess [0, 0, 0, 0], CallTranscribe,
      SendJson [(''error'', ''Speech recognition failed: provider fault'')] None,
      Close (Some 1011) None,
      Close None (Some (PyExc ''RuntimeError'' ''close message already sent''))] \<and>
   map_of [(''error'', ''Speech recognition failed: provider fault'')] ''type'' = None"
  by (simp add: example_defs endpoint_defs)

text \<open>
  C5, amended. On a connection that was accepted and whose earlier frames were processed
  without leaving the loop, when a frame arrives and the audio processing, the
  transcription, the generation or the synthesis raises, and \<open>send_json\<close> returns, the
  endpoint makes exactly one \<open>send_json\<close> on the whole connection, with the object
  \<open>{"error": message}\<close>, where the message is that of the stage's exception (a prefix
  naming the stage, then the text of the fault); right after it \<open>close\<close> is called with
  code 1011, then the \<open>close\<close> of the \<open>finally\<close> clause, and the registry holds the
  session as inactive.
\<close>

theorem stage_failure_reporting:
  assumes acc: "accept ce = None"
    and pre: "conversation_loop proc ce (uuid4 ce) pre (after_create ce st) = (Continue, st1)"
    and rcv: "receive_bytes fe = Inr audio_data"
    and fault:
      "(proc audio_data = Inl e \<and> x = AudioProcessingError e) \<or>
       (\<exists>a. proc audio_data = Inr a \<and> transcribe fe a = Inl e \<and> x = TranscriptionError e) \<or>
       (\<exists>a t. proc audio_data = Inr a \<and> transcribe fe a = Inr t \<and> is_final t \<and>
          fst (generate_response (openai_acreate fe) (language_model st1)
                 (transcript_text t) (uuid4 ce)) = Inl e \<and> x = LLMError e) \<or>
       (\<exists>a t reply lm. proc audio_data = Inr a \<and> transcribe fe a = Inr t \<and> is_final t \<and>
          generate_response (openai_acreate fe) (language_model st1)
                 (transcript_text t) (uuid4 ce) = (Inr reply, lm) \<and>
          synthesize (elevenlabs_generate fe) (voice_synthesizer st1) reply = Inl e \<and>
          x = VoiceSynthesisError e)"
    and sj: "send_json ce = None"
  shows "\<exists>st2 st'. frame_body proc (uuid4 ce) fe st1 = (Some x, st2) \<and>
           websocket_endpoint proc ce (pre @ fe # rest) st = (CLOSED, st') \<and>
           trace st' = trace st2 @
             [SendJson [(''error'', exc_str x)] None, Close (Some 1011) (close_error ce),
              Close None (close_final ce)] \<and>
           filter is_SendJson (new_events st st') = [SendJson [(''error'', exc_str x)] None] \<and>
           session_inactive st' (uuid4 ce)"
proof -
  let ?sid = "uuid4 ce"
  have "fst (frame_body proc ?sid fe st1) = Some x \<and> \<not> isinstance x ''TimeoutError''"
    using rcv fault by (rule frame_body_stage_fault)
  then obtain st2 where fb: "frame_body proc ?sid fe st1 = (Some x, st2)"
    and cls: "\<not> isinstance x ''TimeoutError''"
    by (cases "frame_body proc ?sid fe st1") auto
  from conversation_loop_Continue [OF pre] after_create_facts [of ce st]
  obtain evs where keys1: "map fst (session_manager st1) = map fst (session_manager (after_create ce st))"
    and tr: "trace st1 = trace st @ evs" "filter is_SendJson evs = []"
    by auto
  from frame_body_keys [of proc ?sid fe st1] fb keys1 after_create_facts(1) [of ce st]
  have keys: "?sid \<in> set (map fst (session_manager st2))" by simp
  from frame_body_trace [of proc ?sid fe st1] fb
  obtain evs2 where tr2: "trace st2 = trace st1 @ evs2" "filter is_SendJson evs2 = []" by auto
  have it: "loop_iteration proc ce ?sid fe st1 = (Raise x, st2)"
    using fb cls by (simp add: loop_iteration_def)
  let ?st' = "finally_block ce ?sid (report_error ce x st2)"
  have loop: "conversation_loop proc ce ?sid (pre @ fe # rest) (after_create ce st)
                = (Raise x, st2)"
    using conversation_loop_append [OF pre] it by simp
  have 1: "websocket_endpoint proc ce (pre @ fe # rest) st = (CLOSED, ?st')"
    using loop by (simp add: websocket_endpoint_unfold [OF acc])
  have 2: "trace ?st' = trace st2 @
             [SendJson [(''error'', exc_str x)] None, Close (Some 1011) (close_error ce),
              Close None (close_final ce)]"
    using sj by (simp add: finally_block_def report_error_def emit_def)
  have 3: "filter is_SendJson (new_events st ?st') = [SendJson [(''error'', exc_str x)] None]"
    using tr tr2 by (simp add: 2 new_events_def)
  have 4: "session_inactive ?st' ?sid"
    using end_session_inactive [OF keys] sj
    by (auto simp: session_inactive_def finally_block_def report_error_def emit_def)
  from fb 1 2 3 4 show ?thesis by blast
qed

text \<open>
  Witness for C5: one frame with an interim transcript, then a frame on which the
  transcription raises.
\<close>

theorem stage_failure_reporting_witness:
  "\<exists>st'. websocket_endpoint example_proc example_conn
            [frame_interim, frame_transcription_fault] example_state = (CLOSED, st') \<and>
         filter is_SendJson (new_events example_state st') =
           [SendJson [(''error'', ''Speech recognition failed: provider fault'')] None] \<and>
         session_inactive st' ''session-1''"
proof -
  define st1 where "st1 = snd (conversation_loop example_proc example_conn ''session-1''
                [frame_interim] (after_create example_conn example_state))"
  let ?e = "PyExc ''ConnectionError'' ''provider fault''"
  have acc: "accept example_conn = None" by (simp add: example_defs)
  have u: "uuid4 example_conn = ''session-1''" by (simp add: example_defs)
  have "fst (conversation_loop example_proc example_conn ''session-1'' [frame_interim]
                (after_create example_conn example_state)) = Continue"
    by (simp add: example_defs endpoint_defs)
  then have pre: "conversation_loop example_proc example_conn (uuid4 example_conn)
                [frame_interim] (after_create example_conn example_state) = (Continue, st1)"
    by (simp add: u prod_eq_iff st1_def)
  have rcv: "receive_bytes frame_transcription_fault = Inr [0, 0, 0, 0]"
    by (simp add: example_defs receive_defs)
  have "example_proc [0, 0, 0, 0] = Inr () \<and>
        transcribe frame_transcription_fault () = Inl ?e \<and>
        TranscriptionError ?e = TranscriptionError ?e"
    by (simp add: example_defs)
  then have fault:
      "(example_proc [0, 0, 0, 0] = Inl ?e \<and> TranscriptionError ?e = AudioProcessingError ?e) \<or>
       (\<exists>a. example_proc [0, 0, 0, 0] = Inr a \<and> transcribe frame_transcription_fault a = Inl ?e \<and>
          TranscriptionError ?e = TranscriptionError ?e) \<or>
       (\<exists>a t. example_proc [0, 0, 0, 0] = Inr a \<and> transcribe frame_transcription_fault a = Inr t \<and>
          is_final t \<and>
          fst (generate_response (openai_acreate frame_transcription_fault) (language_model st1)
                 (transcript_text t) (uuid4 example_conn)) = Inl ?e \<and>
          TranscriptionError ?e = LLMError ?e) \<or>
       (\<exists>a t reply lm. example_proc [0, 0, 0, 0] = Inr a \<and>
          transcribe frame_transcription_fault a = Inr t \<and> is_final t \<and>
          generate_response (openai_acreate frame_transcription_fault) (language_model st1)
                 (transcript_text t) (uuid4 example_conn) = (Inr reply, lm) \<and>
          synthesize (elevenlabs_generate frame_transcription_fault) (voice_synthesizer st1) reply
            = Inl ?e \<and>
          TranscriptionError ?e = VoiceSynthesisError ?e)"
    by blast
  have sj: "send_json example_conn = None" by (simp add: example_defs)
  have msg: "exc_str (TranscriptionError ?e) = ''Speech recognition failed: provider fault''"
    by (simp add: TranscriptionError_def)
  from stage_failure_reporting [where proc = example_proc and rest = "[]", OF acc pre rcv fault sj]
  show ?thesis by (auto simp: u msg)
qed

text \<open>
  C3, as stated, fails. A successful call of the generation operation changes the stored
  history: on the initialised server, the history of the session is empty before the
  call and holds the user turn and the assistant turn after it. The endpoint has no
  history update of its own: on a frame whose synthesis fails nothing is sent to the
  client, and the history holds the exchange all the same.
\<close>

theorem generation_side_effect_counterexample:
  "history_get (language_model example_state) ''session-1'' = [] \<and>
   history_get (snd (generate_response (openai_acreate frame_final)
       (language_model example_state) ''hello'' ''session-1'')) ''session-1''
     = [Message ''user'' ''hello'', Message ''assistant'' ''hi there''] \<and>
   fst (frame_body example_proc ''session-1'' frame_synthesis_fault example_state)
     = Some (PyExc ''VoiceSynthesisError'' ''Voice synthesis failed: provider fault'') \<and>
   history_get (language_model
       (snd (frame_body example_proc ''session-1'' frame_synthesis_fault example_state)))
       ''session-1''
     = [Message ''user'' ''hello'', Message ''assistant'' ''hi there''] \<and>
   filter is_websocket_call
       (trace (snd (frame_body example_proc ''session-1'' frame_synthesis_fault example_state)))
     = []"
  by (simp add: example_defs endpoint_defs)

text \<open>
  C3, amended. The generation operation itself updates the stored history. A call that
  returns a reply leaves, for its session, the previous history followed by the user turn
  and the assistant turn, cut to the last ten messages, and leaves the history of every
  other session as it was; a call that raises leaves the language model unchanged. The
  endpoint changes the language model through that call only, made on a frame with a
  final transcript before synthesis is invoked and before anything is sent, whatever
  synthesis and sending do afterwards; on every other frame the language model is
  unchanged.
\<close>

theorem generation_updates_history:
  "(\<forall>reply lm'. generate_response acreate lm user_input sid = (Inr reply, lm') \<longrightarrow>
      history_get lm' sid =
        (let extended = history_get lm sid @
               [Message ''user'' user_input, Message ''assistant'' reply]
         in drop (length extended - 10) extended) \<and>
      (\<forall>other. other \<noteq> sid \<longrightarrow> history_get lm' other = history_get lm other)) \<and>
   (\<forall>e lm'. generate_response acreate lm user_input sid = (Inl e, lm') \<longrightarrow> lm' = lm) \<and>
   language_model (snd (frame_body proc sid fe st)) =
     (case receive_bytes fe of
        Inl e \<Rightarrow> language_model st
      | Inr audio_data \<Rightarrow>
          (case proc audio_data of
             Inl e \<Rightarrow> language_model st
           | Inr processed \<Rightarrow>
               (case transcribe fe processed of
                  Inl e \<Rightarrow> language_model st
                | Inr t \<Rightarrow>
                    if is_final t
                    then snd (generate_response (openai_acreate fe) (language_model st)
                                (transcript_text t) sid)
                    else language_model st)))"
proof (intro conjI allI impI)
  fix reply lm'
  assume g: "generate_response acreate lm user_input sid = (Inr reply, lm')"
  show "history_get lm' sid =
        (let extended = history_get lm sid @
               [Message ''user'' user_input, Message ''assistant'' reply]
         in drop (length extended - 10) extended)"
    using generate_response_history [OF g, of sid] by simp
  fix other assume "other \<noteq> sid"
  then show "history_get lm' other = history_get lm other"
    using generate_response_history [OF g, of other] by simp
next
  fix e lm'
  assume "generate_response acreate lm user_input sid = (Inl e, lm')"
  then show "lm' = lm" by (rule generate_response_fail_unchanged)
next
  show "language_model (snd (frame_body proc sid fe st)) =
     (case receive_bytes fe of
        Inl e \<Rightarrow> language_model st
      | Inr audio_data \<Rightarrow>
          (case proc audio_data of
             Inl e \<Rightarrow> language_model st
           | Inr processed \<Rightarrow>
               (case transcribe fe processed of
                  Inl e \<Rightarrow> language_model st
                | Inr t \<Rightarrow>
                    if is_final t
                    then snd (generate_response (openai_acreate fe) (language_model st)
                                (transcript_text t) sid)
                    else language_model st)))"
    by (simp add: frame_body_def emit_def Let_def
        split: sum.splits prod.splits option.splits)
qed

text \<open>
  Witness for C3: the first exchange of a session on the initialised server.
\<close>

theorem generation_updates_history_witness:
  "history_get (snd (generate_response (openai_acreate frame_final)
       (language_model example_state) ''hello'' ''session-1'')) ''session-1''
     = [Message ''user'' ''hello'', Message ''assistant'' ''hi there''] \<and>
   history_get (snd (generate_response (openai_acreate frame_final)
       (language_model example_state) ''hello'' ''session-1'')) ''session-2'' = []"
proof -
  define lm' where "lm' = snd (generate_response (openai_acreate frame_final)
       (language_model example_state) ''hello'' ''session-1'')"
  have g: "generate_response (openai_acreate frame_final)
       (language_model example_state) ''hello'' ''session-1'' = (Inr ''hi there'', lm')"
    unfolding lm'_def by (simp add: example_defs endpoint_defs)
  have h: "history_get (language_model example_state) ''session-1'' = []"
    "history_get (language_model example_state) ''session-2'' = []"
    by (simp_all add: example_defs history_get_def)
  from generation_updates_history [of "openai_acreate frame_final"
      "language_model example_state" "''hello''" "''session-1''" example_proc frame_final
      example_state, THEN conjunct1, rule_format, OF g]
  have "history_get lm' ''session-1''
          = [Message ''user'' ''hello'', Message ''assistant'' ''hi there'']"
    and "history_get lm' ''session-2'' = []"
    by (simp_all add: h Let_def)
  then show ?thesis by (simp add: lm'_def)
qed

section \<open>Properties of the health endpoint\<close>

text \<open>
  C4, as stated, fails for a component whose status is absent: with the three providers
  healthy the overall result is \<open>healthy\<close>, although the \<open>sessions\<close> component
  has no \<open>status\<close> field.
\<close>

theorem absent_status_counterexample:
  "health_check (Inr (PDict [(''status'', PStr ''healthy'')])) example_state ''t'' =
     Inr (PDict
       [(''status'', PStr ''healthy''),
        (''components'', PDict
          [(''speech_recognition'', PDict [(''status'', PStr ''healthy'')]),
           (''language_model'',
            PDict [(''status'', PStr ''healthy''), (''provider'', PStr ''openai'')]),
           (''voice_synthesis'',
            PDict [(''status'', PStr ''healthy''), (''provider'', PStr ''elevenlabs'')]),
           (''sessions'', PDict [(''active_sessions'', PInt 0)])]),
        (''timestamp'', PStr ''t'')]) \<and>
   map_of [(''active_sessions'', PInt 0)] ''status'' = None"
  by (simp add: health_check_def components_status_of_def overall_status_def all_healthy_def
      LanguageModel_health_check_def VoiceSynthesizer_health_check_def
      get_active_sessions_count_def example_defs)

text \<open>
  C4, amended. The overall result is \<open>healthy\<close> exactly when every component that
  is a dict with a \<open>status\<close> field has the value \<open>healthy\<close> there, and \<open>degraded\<close>
  exactly when some such component has any other value; a component without a
  \<open>status\<close> field does not count, wherever it stands. A language model or a voice
  synthesizer that is not initialised reports \<open>not_initialized\<close> and makes the overall
  result \<open>degraded\<close>.
\<close>

theorem health_verdict:
  "(overall_status components_status = ''healthy'' \<longleftrightarrow>
      (\<forall>status \<in> set (map snd components_status).
          reports_status status \<longrightarrow> get_status status = PStr ''healthy'')) \<and>
   (overall_status components_status = ''degraded'' \<longleftrightarrow>
      (\<exists>status \<in> set (map snd components_status).
          reports_status status \<and> get_status status \<noteq> PStr ''healthy'')) \<and>
   (\<forall>name status. \<not> reports_status status \<longrightarrow>
      overall_status (before @ (name, status) # after) = overall_status (before @ after)) \<and>
   (\<not> llm_is_initialized (language_model st) \<or>
    \<not> voice_is_initialized (voice_synthesizer st) \<longrightarrow>
      overall_status (components_status_of speech st) = ''degraded'')"
proof (intro conjI)
  show "overall_status components_status = ''healthy'' \<longleftrightarrow>
      (\<forall>status \<in> set (map snd components_status).
          reports_status status \<longrightarrow> get_status status = PStr ''healthy'')"
    by (auto simp: overall_status_def all_healthy_def list_all_iff)
  show "overall_status components_status = ''degraded'' \<longleftrightarrow>
      (\<exists>status \<in> set (map snd components_status).
          reports_status status \<and> get_status status \<noteq> PStr ''healthy'')"
    by (auto simp: overall_status_def all_healthy_def list_all_iff)
  show "\<forall>name status. \<not> reports_status status \<longrightarrow>
      overall_status (before @ (name, status) # after) = overall_status (before @ after)"
    by (simp add: overall_status_def all_healthy_def)
  show "\<not> llm_is_initialized (language_model st) \<or>
    \<not> voice_is_initialized (voice_synthesizer st) \<longrightarrow>
      overall_status (components_status_of speech st) = ''degraded''"
    by (auto simp: overall_status_def all_healthy_def components_status_of_def
        LanguageModel_health_check_def VoiceSynthesizer_health_check_def)
qed

text \<open>
  Witness for C4: a healthy language model beside the \<open>sessions\<close> component.
\<close>

theorem health_verdict_witness:
  "overall_status
     [(''language_model'',
       PDict [(''status'', PStr ''healthy''), (''provider'', PStr ''openai'')]),
      (''sessions'', PDict [(''active_sessions'', PInt 0)])] = ''healthy''"
  using health_verdict [of
     "[(''language_model'',
        PDict [(''status'', PStr ''healthy''), (''provider'', PStr ''openai'')]),
       (''sessions'', PDict [(''active_sessions'', PInt 0)])]"
     "[]" "[]" example_state PNone]
  by simp

section \<open>Properties of the audio processor\<close>

lemma length_items4: "length (items4 bs) = length bs div 4"
  by (induction bs rule: items4.induct) simp_all

lemma process_buffer_size:
  "length audio_data mod 4 \<noteq> 0 \<Longrightarrow> process below agc ap audio_data = Inl buffer_size_error"
  by (simp add: process_def frombuffer_def)

lemma process_reshape:
  assumes "length audio_data mod 4 = 0" and "channels ap = 2"
      and "length audio_data mod 8 \<noteq> 0"
  shows "process below agc ap audio_data = Inl (reshape_error (length audio_data div 4))"
proof -
  from assms(1,3) have "(length audio_data div 4) mod 2 \<noteq> 0" by presburger
  then show ?thesis using assms(1,2)
    by (simp add: process_def frombuffer_def reshape_pairs_def length_items4)
qed

text \<open>
  On a buffer of the right length the read-only view stops \<open>process\<close> at the noise
  gate.
\<close>

lemma process_read_only:
  assumes "well_shaped ap audio_data"
  shows "process below agc ap audio_data =
           Inl (PyExc ''ValueError'' ''assignment destination is read-only'')"
proof -
  from assms have m4: "length audio_data mod 4 = 0" by (simp add: well_shaped_def)
  show ?thesis
  proof (cases "channels ap = 2")
    case True
    with assms have "length audio_data mod 8 = 0" by (simp add: well_shaped_def)
    with m4 have "(length audio_data div 4) mod 2 = 0" by presburger
    then show ?thesis using m4 True
      by (simp add: process_def frombuffer_def reshape_pairs_def length_items4 reduce_noise_def)
  next
    case False
    then show ?thesis using m4
      by (simp add: process_def frombuffer_def reduce_noise_def)
  qed
qed

lemma shape_errors_not_read_only:
  "PyExc ''ValueError'' ''assignment destination is read-only'' \<noteq> buffer_size_error"
  "PyExc ''ValueError'' ''assignment destination is read-only'' \<noteq> reshape_error n"
  by (simp_all add: buffer_size_error_def reshape_error_def)

text \<open>
  C9, as stated, fails on both counts. Three bytes are no whole \<open>float32\<close> sample, and
  \<open>process\<close> fails with the \<open>ValueError\<close> of \<open>np.frombuffer\<close>, which the endpoint
  wraps as \<open>AudioProcessingError\<close>; one sample with two channels configured fails with
  the \<open>ValueError\<close> of \<open>reshape\<close>; no \<open>MalformedAudioError\<close> is raised. And a buffer
  of the right length does not succeed: the four bytes of the sample 0.5 with one
  channel fail with a \<open>ValueError\<close> at the noise gate.
\<close>

theorem malformed_audio_error_counterexample:
  "process example_below example_agc example_ap [1, 2, 3] =
     Inl (PyExc ''ValueError'' ''buffer size must be a multiple of element size'') \<and>
   length [1, 2, 3 :: 8 word] mod (4 * nat (channels example_ap)) \<noteq> 0 \<and>
   ''ValueError'' \<noteq> ''MalformedAudioError'' \<and>
   fst (frame_body (process example_below example_agc example_ap) ''session-1''
          frame_malformed example_state) =
     Some (PyExc ''AudioProcessingError''
       ''Audio processing failed: buffer size must be a multiple of element size'') \<and>
   process example_below example_agc (example_ap\<lparr>channels := 2\<rparr>) [0, 0, 0, 63] =
     Inl (PyExc ''ValueError'' ''cannot reshape array of size 1 into shape (2)'') \<and>
   length [0, 0, 0, 63 :: 8 word] mod (4 * nat (channels example_ap)) = 0 \<and>
   process example_below example_agc example_ap [0, 0, 0, 63] =
     Inl (PyExc ''ValueError'' ''assignment destination is read-only'')"
  by (simp add: process_def frombuffer_def reshape_pairs_def reduce_noise_def
      buffer_size_error_def reshape_error_def str_nat.simps example_ap_def frame_body_def
      emit_def AudioProcessingError_def frame_malformed_def receive_defs)

text \<open>
  C9, amended. For every buffer whose length is not a multiple of 4 bytes \<open>process\<close>
  fails with the \<open>ValueError\<close> of \<open>np.frombuffer\<close>, and for every buffer of whole
  samples whose length, with two channels configured, is not a multiple of 8 bytes it
  fails with the \<open>ValueError\<close> of \<open>reshape\<close>, which names the number of samples; on
  no other buffer does \<open>process\<close> end with one of these two errors. When such a buffer
  is received, the endpoint ends the frame with an \<open>AudioProcessingError\<close> carrying the
  text of the error. With one or two channels these are exactly the buffers whose
  length is not a multiple of the sample width times the channel count.
\<close>

theorem malformed_input_fails:
  "(length audio_data mod 4 \<noteq> 0 \<longrightarrow>
      process below agc ap audio_data = Inl buffer_size_error) \<and>
   (length audio_data mod 4 = 0 \<and> channels ap = 2 \<and> length audio_data mod 8 \<noteq> 0 \<longrightarrow>
      process below agc ap audio_data = Inl (reshape_error (length audio_data div 4))) \<and>
   (well_shaped ap audio_data \<longrightarrow>
      process below agc ap audio_data \<noteq> Inl buffer_size_error \<and>
      (\<forall>n. process below agc ap audio_data \<noteq> Inl (reshape_error n))) \<and>
   (\<not> well_shaped ap audio_data \<and> receive_bytes fe = Inr audio_data \<longrightarrow>
      frame_body (process below agc ap) sid fe st =
        (Some (PyExc ''AudioProcessingError''
           (''Audio processing failed: '' @
            exc_str (if length audio_data mod 4 \<noteq> 0 then buffer_size_error
                     else reshape_error (length audio_data div 4)))),
         emit (CallProcess audio_data) st)) \<and>
   ((channels ap = 1 \<or> channels ap = 2) \<longrightarrow>
      (\<not> well_shaped ap audio_data \<longleftrightarrow>
         length audio_data mod (4 * nat (channels ap)) \<noteq> 0))"
proof (intro conjI impI)
  assume "length audio_data mod 4 \<noteq> 0"
  then show "process below agc ap audio_data = Inl buffer_size_error"
    by (rule process_buffer_size)
next
  assume "length audio_data mod 4 = 0 \<and> channels ap = 2 \<and> length audio_data mod 8 \<noteq> 0"
  then show "process below agc ap audio_data = Inl (reshape_error (length audio_data div 4))"
    by (simp add: process_reshape)
next
  assume w: "well_shaped ap audio_data"
  show "process below agc ap audio_data \<noteq> Inl buffer_size_error"
    using process_read_only [OF w, of below agc] shape_errors_not_read_only(1) by simp
  show "\<forall>n. process below agc ap audio_data \<noteq> Inl (reshape_error n)"
    using process_read_only [OF w, of below agc] shape_errors_not_read_only(2) by simp
next
  assume a: "\<not> well_shaped ap audio_data \<and> receive_bytes fe = Inr audio_data"
  let ?e = "if length audio_data mod 4 \<noteq> 0 then buffer_size_error
            else reshape_error (length audio_data div 4)"
  have "process below agc ap audio_data = Inl ?e"
  proof (cases "length audio_data mod 4 = 0")
    case False
    then show ?thesis by (simp add: process_buffer_size)
  next
    case True
    with a have "channels ap = 2" "length audio_data mod 8 \<noteq> 0"
      by (auto simp: well_shaped_def split: if_splits)
    with True show ?thesis by (simp add: process_reshape)
  qed
  with a show "frame_body (process below agc ap) sid fe st =
        (Some (PyExc ''AudioProcessingError'' (''Audio processing failed: '' @ exc_str ?e)),
         emit (CallProcess audio_data) st)"
    by (simp add: frame_body_def Let_def AudioProcessingError_def)
next
  assume "channels ap = 1 \<or> channels ap = 2"
  then show "\<not> well_shaped ap audio_data \<longleftrightarrow>
         length audio_data mod (4 * nat (channels ap)) \<noteq> 0"
  proof
    assume "channels ap = 1"
    then show ?thesis by (simp add: well_shaped_def)
  next
    assume c: "channels ap = 2"
    have "length audio_data mod 4 = 0 \<and> length audio_data mod 8 = 0 \<longleftrightarrow>
          length audio_data mod 8 = 0"
      by presburger
    then have "well_shaped ap audio_data \<longleftrightarrow> length audio_data mod 8 = 0"
      using c unfolding well_shaped_def by simp
    moreover have "4 * nat (channels ap) = 8" using c by simp
    ultimately show ?thesis by simp
  qed
qed

text \<open>
  Witness for C9: one \<open>float32\<close> sample with two channels configured.
\<close>

theorem malformed_input_fails_witness:
  "process example_below example_agc (example_ap\<lparr>channels := 2\<rparr>) [0, 0, 0, 63] =
     Inl (PyExc ''ValueError'' ''cannot reshape array of size 1 into shape (2)'')"
proof -
  have "length [0, 0, 0, 63 :: 8 word] mod 4 = 0 \<and>
        channels (example_ap\<lparr>channels := 2\<rparr>) = 2 \<and>
        length [0, 0, 0, 63 :: 8 word] mod 8 \<noteq> 0"
    by simp
  with malformed_input_fails [of "[0, 0, 0, 63]" example_below example_agc
      "example_ap\<lparr>channels := 2\<rparr>" frame_malformed "''session-1''" example_state]
  have "process example_below example_agc (example_ap\<lparr>channels := 2\<rparr>) [0, 0, 0, 63] =
          Inl (reshape_error (length [0, 0, 0, 63 :: 8 word] div 4))"
    by blast
  then show ?thesis by (simp add: reshape_error_def str_nat.simps)
qed

end
